theory Spec2Isabelle
  imports Complex_Main
begin

section \<open>Data model\<close>

text \<open>
  The relational store behind \<open>db\<close> is modelled as a record of tables. A company row is
  found by its primary key, so the company table is a map from ids to rows; documents,
  notifications and audit entries are lists in insertion order. JavaScript numbers that
  hold amounts of money (\<open>revenue\<close>, \<open>targetRaise\<close>) are finite IEEE doubles, each
  carried as the real number it denotes; \<open>NaN\<close> and the infinities are left out. Division,
  multiplication and addition of such numbers round the exact result to the nearest
  double, as the section on double-precision arithmetic defines. Point values are
  integers, and they are printed in decimal, as JavaScript prints an integer below
  \<open>2 ^ 53\<close> in magnitude. Timestamps
  are natural numbers read from a clock that the handlers receive as an argument;
  generated row ids of notifications and audit entries are left out.
\<close>

record company =
  userId :: string
  name :: string
  sector :: string
  targetRaise :: real
  revenue :: real
  kycVerified :: bool
  financialsLinked :: bool
  updatedAt :: nat

record document =
  d_id :: string
  d_companyId :: string
  d_name :: string
  d_mimeType :: string
  d_size :: nat
  d_path :: string
  d_category :: string

datatype notification_type = info | success | warning | error

datatype json = JString string | JNumber int

record notification =
  n_userId :: string
  n_type :: notification_type
  n_title :: "string option"
  n_message :: string
  n_data :: "(string \<times> json) list option"
  n_createdAt :: nat

record audit_log =
  a_userId :: string
  a_action :: string
  a_resource :: string
  a_createdAt :: nat

record store =
  companies :: "string \<rightharpoonup> company"
  documents :: "document list"
  notifications :: "notification list"
  auditLogs :: "audit_log list"
  console :: "string list"

text \<open>A thrown \<open>new Error(message)\<close>.\<close>

datatype js_error = Error string

record breakdown =
  bd_kycVerified :: int
  bd_financialsLinked :: int
  bd_documentsUploaded :: int
  bd_revenueScore :: int

record investability_score =
  score :: int
  breakdown :: breakdown

section \<open>Numbers as text\<close>

text \<open>Template literals print an integer in decimal, with a minus sign when negative.\<close>

definition digit_char :: "nat \<Rightarrow> char" where
  "digit_char n = ''0123456789'' ! n"

function nat_to_string :: "nat \<Rightarrow> string" where
  "nat_to_string n =
     (if n < 10 then [digit_char n] else nat_to_string (n div 10) @ [digit_char (n mod 10)])"
  by pat_completeness auto
termination
  by (relation "measure (\<lambda>n. n)") auto

declare nat_to_string.simps [simp del]

definition int_to_string :: "int \<Rightarrow> string" where
  "int_to_string i = (if i < 0 then CHR ''-'' # nat_to_string (nat (- i)) else nat_to_string (nat i))"

section \<open>Double-precision arithmetic\<close>

text \<open>
  A JavaScript number is a binary64 value: 53 significant bits, exponents down to
  \<open>2 powi (- 1074)\<close> for the subnormal numbers. \<open>binade x\<close> is the exponent \<open>e\<close> with
  \<open>2 powi e \<le> \<bar>x\<bar> < 2 powi (e + 1)\<close>, \<open>ulp x\<close> the spacing of the doubles there, and
  \<open>round_double\<close> rounds a real to the nearest double, a tie going to the even neighbour.
  \<open>fdiv\<close>, \<open>fmul\<close> and \<open>fadd\<close> are the operators \<open>/\<close>, \<open>*\<close> and \<open>+\<close>: the exact result,
  rounded once. Overflow is not modelled; it cannot happen in \<open>(revenue / 1000000) * 25\<close>,
  whose result is smaller in magnitude than the revenue, nor in the sum of the points.
\<close>

function log2_floor :: "nat \<Rightarrow> nat" where
  "log2_floor n = (if n < 2 then 0 else Suc (log2_floor (n div 2)))"
  by pat_completeness auto
termination
  by (relation "measure (\<lambda>n. n)") auto

declare log2_floor.simps [simp del]

definition binade :: "real \<Rightarrow> int" where
  "binade x =
     (let a = \<bar>x\<bar>
      in if a \<ge> 1 then int (log2_floor (nat \<lfloor>a\<rfloor>))
         else - (int (log2_floor (nat (\<lceil>1 / a\<rceil> - 1))) + 1))"

definition rne :: "real \<Rightarrow> int" where
  "rne m =
     (let f = \<lfloor>m\<rfloor>; d = m - of_int f
      in if d < 1 / 2 then f
         else if d > 1 / 2 then f + 1
         else if even f then f else f + 1)"

definition ulp :: "real \<Rightarrow> real" where
  "ulp x = 2 powi (max (binade x - 52) (- 1074))"

definition round_double :: "real \<Rightarrow> real" where
  "round_double x = (if x = 0 then 0 else of_int (rne (x / ulp x)) * ulp x)"

definition fdiv :: "real \<Rightarrow> real \<Rightarrow> real" where
  "fdiv x y = round_double (x / y)"

definition fmul :: "real \<Rightarrow> real \<Rightarrow> real" where
  "fmul x y = round_double (x * y)"

definition fadd :: "real \<Rightarrow> real \<Rightarrow> real" where
  "fadd x y = round_double (x + y)"

section \<open>InvestabilityService\<close>

text \<open>
  \<open>Math.round\<close>: the nearest integer, a tie going towards plus infinity. It is exact on
  the double it is given.
\<close>

definition Math_round :: "real \<Rightarrow> int" where
  "Math_round x = \<lfloor>x + 1 / 2\<rfloor>"

definition calculateRevenueScore :: "real \<Rightarrow> int" where
  "calculateRevenueScore rv =
     (let maxRevenue = 1000000; maxPoints = 25
      in if rv \<ge> maxRevenue then maxPoints
         else Math_round (fmul (fdiv rv maxRevenue) (of_int maxPoints)))"

text \<open>
  \<open>findUnique\<close> with \<open>include: { documents: true }\<close> returns the row together with the
  documents whose \<open>companyId\<close> is the row's id.
\<close>

definition company_documents :: "store \<Rightarrow> string \<Rightarrow> document list" where
  "company_documents s companyId = filter (\<lambda>d. d_companyId d = companyId) (documents s)"

definition Object_values :: "breakdown \<Rightarrow> int list" where
  "Object_values b =
     [bd_kycVerified b, bd_financialsLinked b, bd_documentsUploaded b, bd_revenueScore b]"

text \<open>
  The callback of \<open>reduce\<close>, \<open>(sum, value) => sum + value\<close>. Point values are integers
  held in doubles; the sum of two of them is a double that is an integer again.
\<close>

definition add_points :: "int \<Rightarrow> int \<Rightarrow> int" where
  "add_points acc v = \<lfloor>fadd (of_int acc) (of_int v)\<rfloor>"

definition calculateScore :: "store \<Rightarrow> string \<Rightarrow> js_error + investability_score" where
  "calculateScore s companyId =
     (case companies s companyId of
        None \<Rightarrow> Inl (Error ''Company not found'')
      | Some c \<Rightarrow>
          let b = \<lparr> bd_kycVerified = (if kycVerified c then 30 else 0),
                    bd_financialsLinked = (if financialsLinked c then 20 else 0),
                    bd_documentsUploaded = min (int (length (company_documents s companyId)) * 5) 25,
                    bd_revenueScore = calculateRevenueScore (revenue c) \<rparr>;
              total = foldl (\<lambda>sum v. add_points sum v) 0 (Object_values b)
          in Inr \<lparr> score = min total 100, breakdown = b \<rparr>)"

definition getScoreWithCache :: "store \<Rightarrow> string \<Rightarrow> js_error + investability_score" where
  "getScoreWithCache s companyId = calculateScore s companyId"

text \<open>
  \<open>onCompanyDataChange\<close> recomputes the score and writes one line to the console. When
  \<open>calculateScore\<close> throws, nothing has been written yet.
\<close>

definition onCompanyDataChange :: "string \<Rightarrow> store \<Rightarrow> js_error + store" where
  "onCompanyDataChange companyId s =
     (case calculateScore s companyId of
        Inl e \<Rightarrow> Inl e
      | Inr newScore \<Rightarrow>
          Inr (s\<lparr> console := console s @
                 [''Score updated for company '' @ companyId @ '': '' @ int_to_string (score newScore)] \<rparr>))"

definition push :: "'a list \<Rightarrow> 'a \<Rightarrow> 'a list" where
  "push xs x = xs @ [x]"

definition getRecommendations :: "store \<Rightarrow> string \<Rightarrow> js_error + string list" where
  "getRecommendations s companyId =
     (case companies s companyId of
        None \<Rightarrow> Inl (Error ''Company not found'')
      | Some c \<Rightarrow>
          let docs = company_documents s companyId;
              r0 = [];
              r1 = (if \<not> kycVerified c
                    then push r0 ''Complete KYC verification to earn 30 points'' else r0);
              r2 = (if \<not> financialsLinked c
                    then push r1 ''Link your bank account to earn 20 points'' else r1);
              r3 = (if length docs < 5
                    then let needed = 5 - int (length docs)
                         in push r2 (''Upload '' @ int_to_string needed @ '' more document''
                                     @ (if needed > 1 then ''s'' else '''')
                                     @ '' to maximize document points'')
                    else r2);
              r4 = (if revenue c < 1000000
                    then push r3 ''As your revenue grows, your score will automatically improve''
                    else r3)
          in Inr r4)"

section \<open>NotificationService\<close>

text \<open>
  \<open>create\<close> inserts one row. The row id and the value returned to the caller are not
  modelled: no caller below reads them.
\<close>

definition create ::
  "string \<Rightarrow> notification_type \<Rightarrow> string \<Rightarrow> string option \<Rightarrow> (string \<times> json) list option
     \<Rightarrow> nat \<Rightarrow> store \<Rightarrow> store" where
  "create user type message title data now s =
     s\<lparr> notifications := notifications s @
          [\<lparr> n_userId = user, n_type = type, n_title = title, n_message = message,
             n_data = data, n_createdAt = now \<rparr>] \<rparr>"

definition notifyKycVerified :: "string \<Rightarrow> nat \<Rightarrow> store \<Rightarrow> store" where
  "notifyKycVerified user now s =
     create user success
       ''Your KYC verification has been completed successfully. You earned 30 investability points!''
       (Some ''KYC Verified'')
       (Some [(''event'', JString ''kyc_verified''), (''pointsEarned'', JNumber 30)]) now s"

definition notifyFinancialsLinked :: "string \<Rightarrow> nat \<Rightarrow> store \<Rightarrow> store" where
  "notifyFinancialsLinked user now s =
     create user success
       ''Your bank account has been successfully linked. You earned 20 investability points!''
       (Some ''Financials Linked'')
       (Some [(''event'', JString ''financials_linked''), (''pointsEarned'', JNumber 20)]) now s"

definition notifyDocumentUploaded :: "string \<Rightarrow> string \<Rightarrow> nat \<Rightarrow> store \<Rightarrow> store" where
  "notifyDocumentUploaded user documentName now s =
     create user info
       (''Document '' @ [CHR 0x22] @ documentName @ [CHR 0x22]
          @ '' has been uploaded successfully to your data room.'')
       (Some ''Document Uploaded'')
       (Some [(''event'', JString ''document_uploaded''), (''documentName'', JString documentName)])
       now s"

text \<open>The arrow between the two scores is written as the three bytes of its UTF-8 form.\<close>

definition notifyScoreImproved :: "string \<Rightarrow> int \<Rightarrow> int \<Rightarrow> nat \<Rightarrow> store \<Rightarrow> store" where
  "notifyScoreImproved user oldScore newScore now s =
     (let improvement = newScore - oldScore
      in create user success
           (''Great progress! Your investability score improved by '' @ int_to_string improvement
              @ '' points ('' @ int_to_string oldScore @ '' '' @ [CHR 0xE2, CHR 0x86, CHR 0x92]
              @ '' '' @ int_to_string newScore @ '').'')
           (Some ''Score Improved'')
           (Some [(''event'', JString ''score_improved''), (''oldScore'', JNumber oldScore),
                  (''newScore'', JNumber newScore), (''improvement'', JNumber improvement)])
           now s)"

section \<open>Route handlers that change what the score reads\<close>

text \<open>
  A handler maps the store to a reply and the store it leaves behind. A reply is either
  \<open>reply.status(code).send({success: false, error})\<close> or a success body with its status
  code. Each handler body sits in a \<open>try\<close> block: when a call throws, the effects made
  before the throw stay, the \<open>catch\<close> block logs the error (the model logs prefix and
  message) and sends the handler's failure reply. The \<open>metadata\<close> column of an audit
  entry is left out. The hooks that the server runs before every handler (sanitising of
  strings, the request audit) are not part of a handler.
\<close>

datatype 'a reply = Send_error nat string | Send_ok nat 'a

definition console_error :: "string \<Rightarrow> js_error \<Rightarrow> store \<Rightarrow> store" where
  "console_error prefix e s =
     (case e of Error m \<Rightarrow> s\<lparr> console := console s @ [prefix @ '' '' @ m] \<rparr>)"

definition auditLog_create :: "string \<Rightarrow> string \<Rightarrow> string \<Rightarrow> nat \<Rightarrow> store \<Rightarrow> store" where
  "auditLog_create user action resource now s =
     s\<lparr> auditLogs := auditLogs s @
          [\<lparr> a_userId = user, a_action = action, a_resource = resource, a_createdAt = now \<rparr>] \<rparr>"

record kyc_request =
  kr_companyId :: string
  kr_inquiryId :: "string option"
  kr_mockVerify :: bool

text \<open>
  \<open>POST /api/kyc/verify\<close>. \<open>verifyWithPersona\<close> draws a random number; its answer for
  an inquiry id is an argument of the model. An empty \<open>inquiryId\<close> is falsy.
\<close>

definition kyc_verify ::
  "(string \<Rightarrow> bool) \<Rightarrow> nat \<Rightarrow> kyc_request \<Rightarrow> store \<Rightarrow> bool reply \<times> store" where
  "kyc_verify verifyWithPersona now req s =
     (let companyId = kr_companyId req
      in case companies s companyId of
           None \<Rightarrow> (Send_error 404 ''Company not found'', s)
         | Some c \<Rightarrow>
             if kycVerified c
             then (Send_error 400 ''KYC already verified for this company'', s)
             else
               let decision =
                     (if kr_mockVerify req then Some True
                      else case kr_inquiryId req of
                             None \<Rightarrow> None
                           | Some i \<Rightarrow> if i \<noteq> [] then Some (verifyWithPersona i) else None)
               in case decision of
                    None \<Rightarrow> (Send_error 400 ''Either mockVerify or inquiryId is required'', s)
                  | Some verified \<Rightarrow>
                      if verified
                      then
                        let s1 = s\<lparr> companies := (companies s)
                                       (companyId \<mapsto> c\<lparr> kycVerified := True, updatedAt := now \<rparr>) \<rparr>;
                            s2 = notifyKycVerified (userId c) now s1
                        in case onCompanyDataChange companyId s2 of
                             Inl e \<Rightarrow>
                               (Send_error 500 ''Failed to verify KYC'',
                                console_error ''Error verifying KYC:'' e s2)
                           | Inr s3 \<Rightarrow>
                               (Send_ok 200 verified,
                                auditLog_create (userId c) ''kyc_verified''
                                  (''Company:'' @ companyId) now s3)
                      else (Send_ok 200 verified, s))"

record link_request =
  lr_companyId :: string
  lr_plaidToken :: string
  lr_accountId :: "string option"

definition linkWithPlaid :: "string \<Rightarrow> string option \<Rightarrow> bool" where
  "linkWithPlaid plaidToken accountId = (length plaidToken > 0)"

text \<open>\<open>POST /api/financials/link\<close>.\<close>

definition financials_link :: "nat \<Rightarrow> link_request \<Rightarrow> store \<Rightarrow> bool reply \<times> store" where
  "financials_link now req s =
     (let companyId = lr_companyId req
      in case companies s companyId of
           None \<Rightarrow> (Send_error 404 ''Company not found'', s)
         | Some c \<Rightarrow>
             if financialsLinked c
             then (Send_error 400 ''Financials already linked for this company'', s)
             else
               let linked = linkWithPlaid (lr_plaidToken req) (lr_accountId req)
               in if linked
                  then
                    let s1 = s\<lparr> companies := (companies s)
                                   (companyId \<mapsto> c\<lparr> financialsLinked := True, updatedAt := now \<rparr>) \<rparr>;
                        s2 = notifyFinancialsLinked (userId c) now s1
                    in case onCompanyDataChange companyId s2 of
                         Inl e \<Rightarrow>
                           (Send_error 500 ''Failed to link financial accounts'',
                            console_error ''Error linking financials:'' e s2)
                       | Inr s3 \<Rightarrow>
                           (Send_ok 200 linked,
                            auditLog_create (userId c) ''financials_linked''
                              (''Company:'' @ companyId) now s3)
                  else (Send_ok 200 linked, s))"

definition unlinkFromPlaid :: "string \<Rightarrow> store \<Rightarrow> store" where
  "unlinkFromPlaid companyId s =
     s\<lparr> console := console s @ [''Unlinking Plaid accounts for company '' @ companyId] \<rparr>"

text \<open>\<open>DELETE /api/financials/link/:companyId\<close>.\<close>

definition financials_unlink :: "nat \<Rightarrow> string \<Rightarrow> store \<Rightarrow> bool reply \<times> store" where
  "financials_unlink now companyId s =
     (case companies s companyId of
        None \<Rightarrow> (Send_error 404 ''Company not found'', s)
      | Some c \<Rightarrow>
          if \<not> financialsLinked c
          then (Send_error 400 ''No financial accounts linked'', s)
          else
            let s1 = unlinkFromPlaid companyId s;
                s2 = s1\<lparr> companies := (companies s1)
                            (companyId \<mapsto> c\<lparr> financialsLinked := False, updatedAt := now \<rparr>) \<rparr>
            in case onCompanyDataChange companyId s2 of
                 Inl e \<Rightarrow>
                   (Send_error 500 ''Failed to unlink financial accounts'',
                    console_error ''Error unlinking financials:'' e s2)
               | Inr s3 \<Rightarrow>
                   (Send_ok 200 True,
                    auditLog_create (userId c) ''financials_unlinked''
                      (''Company:'' @ companyId) now s3))"

text \<open>\<open>POST /api/score/:companyId/recalculate\<close>.\<close>

definition score_recalculate :: "string \<Rightarrow> store \<Rightarrow> investability_score reply \<times> store" where
  "score_recalculate companyId s =
     (case companies s companyId of
        None \<Rightarrow> (Send_error 404 ''Company not found'', s)
      | Some c \<Rightarrow>
          (case calculateScore s companyId of
             Inl e \<Rightarrow>
               (Send_error 500 ''Failed to recalculate score'',
                console_error ''Error recalculating score:'' e s)
           | Inr sc \<Rightarrow>
               (case onCompanyDataChange companyId s of
                  Inl e \<Rightarrow>
                    (Send_error 500 ''Failed to recalculate score'',
                     console_error ''Error recalculating score:'' e s)
                | Inr s1 \<Rightarrow> (Send_ok 200 sc, s1))))"



section \<open>FileService and the file routes\<close>

text \<open>
  The file service talks to the disk, to an image library and to a file-type sniffer.
  These are arguments of the model: what \<open>validateFile\<close> throws for a file (if anything),
  the id that \<open>uuid()\<close> returns, the extension of a file name, the bytes that
  \<open>processImage\<close> returns, whether a path can be read and whether \<open>unlink\<close> succeeds.
\<close>

record uploaded_file =
  originalname :: string
  mimetype :: string
  buffer :: "nat list"

record file_env =
  UPLOAD_DIR :: string
  validateFile :: "uploaded_file \<Rightarrow> string option"
  uuid :: string
  extname :: "string \<Rightarrow> string"
  processImage :: "nat list \<Rightarrow> nat list"
  fs_access :: "string \<Rightarrow> bool"
  fs_unlink :: "string \<Rightarrow> bool"

definition allowed_char :: "char \<Rightarrow> bool" where
  "allowed_char c =
     (c \<in> set ''abcdefghijklmnopqrstuvwxyzABCDEFGHIJKLMNOPQRSTUVWXYZ0123456789.-'')"

fun collapse_dots :: "string \<Rightarrow> string" where
  "collapse_dots (x # y # xs) =
     (if x = CHR ''.'' \<and> y = CHR ''.'' then collapse_dots (y # xs)
      else x # collapse_dots (y # xs))"
| "collapse_dots xs = xs"

definition sanitizeFileName :: "string \<Rightarrow> string" where
  "sanitizeFileName fileName =
     take 100 (collapse_dots (map (\<lambda>c. if allowed_char c then c else CHR ''_'') fileName))"

definition uploadFile ::
  "file_env \<Rightarrow> uploaded_file \<Rightarrow> string \<Rightarrow> string option \<Rightarrow> nat \<Rightarrow> store
     \<Rightarrow> (js_error + document) \<times> store" where
  "uploadFile env file companyId category now s =
     (case validateFile env file of
        Some m \<Rightarrow> (Inl (Error m), s)
      | None \<Rightarrow>
          let fileId = uuid env;
              fileExtension = extname env (originalname file);
              sanitizedName = sanitizeFileName (originalname file);
              fileName = fileId @ fileExtension;
              finalPath = UPLOAD_DIR env @ ''/'' @ companyId @ ''/'' @ fileName;
              processedBuffer =
                (if take 6 (mimetype file) = ''image/'' then processImage env (buffer file)
                 else buffer file);
              doc = \<lparr> d_id = fileId, d_companyId = companyId, d_name = sanitizedName,
                      d_mimeType = mimetype file, d_size = length processedBuffer,
                      d_path = finalPath,
                      d_category = (case category of
                                      None \<Rightarrow> ''other''
                                    | Some k \<Rightarrow> if k \<noteq> [] then k else ''other'') \<rparr>
          in (Inr doc, s\<lparr> documents := documents s @ [doc] \<rparr>))"

definition getFile :: "file_env \<Rightarrow> string \<Rightarrow> string \<Rightarrow> store \<Rightarrow> js_error + document" where
  "getFile env fileId companyId s =
     (case find (\<lambda>d. d_id d = fileId \<and> d_companyId d = companyId) (documents s) of
        None \<Rightarrow> Inl (Error ''File not found'')
      | Some d \<Rightarrow>
          if fs_access env (d_path d) then Inr d else Inl (Error ''File not found on disk''))"

definition deleteFile :: "file_env \<Rightarrow> string \<Rightarrow> string \<Rightarrow> store \<Rightarrow> js_error + store" where
  "deleteFile env fileId companyId s =
     (case find (\<lambda>d. d_id d = fileId \<and> d_companyId d = companyId) (documents s) of
        None \<Rightarrow> Inl (Error ''File not found'')
      | Some d \<Rightarrow>
          let s1 = (if fs_unlink env (d_path d) then s
                    else s\<lparr> console := console s @
                           [''Failed to delete file from disk: '' @ d_path d] \<rparr>)
          in Inr (s1\<lparr> documents := filter (\<lambda>x. d_id x \<noteq> fileId) (documents s1) \<rparr>))"

record upload_request =
  up_file :: "uploaded_file option"
  up_category :: "string option"

text \<open>\<open>POST /api/files/:companyId\<close>.\<close>

definition files_upload ::
  "file_env \<Rightarrow> nat \<Rightarrow> string \<Rightarrow> upload_request \<Rightarrow> store \<Rightarrow> document reply \<times> store" where
  "files_upload env now companyId req s =
     (case companies s companyId of
        None \<Rightarrow> (Send_error 404 ''Company not found'', s)
      | Some c \<Rightarrow>
          (case up_file req of
             None \<Rightarrow> (Send_error 400 ''No file provided'', s)
           | Some file \<Rightarrow>
               let category = (case up_category req of
                                 None \<Rightarrow> ''other''
                               | Some k \<Rightarrow> if k \<noteq> [] then k else ''other'')
               in case uploadFile env file companyId (Some category) now s of
                    (Inl e, s1) \<Rightarrow>
                      (Send_error 500 (case e of Error m \<Rightarrow> m),
                       console_error ''Error uploading file:'' e s1)
                  | (Inr doc, s1) \<Rightarrow>
                      let s2 = notifyDocumentUploaded (userId c) (d_name doc) now s1
                      in case onCompanyDataChange companyId s2 of
                           Inl e \<Rightarrow>
                             (Send_error 500 (case e of Error m \<Rightarrow> m),
                              console_error ''Error uploading file:'' e s2)
                         | Inr s3 \<Rightarrow>
                             (Send_ok 201 doc,
                              auditLog_create (userId c) ''document_uploaded''
                                (''Document:'' @ d_id doc) now s3)))"

text \<open>\<open>DELETE /api/files/:companyId/:fileId\<close>.\<close>

definition files_delete ::
  "file_env \<Rightarrow> nat \<Rightarrow> string \<Rightarrow> string \<Rightarrow> store \<Rightarrow> bool reply \<times> store" where
  "files_delete env now companyId fileId s =
     (case getFile env fileId companyId s of
        Inl e \<Rightarrow>
          (Send_error 404 (case e of Error m \<Rightarrow> m), console_error ''Error deleting file:'' e s)
      | Inr doc \<Rightarrow>
          let company = companies s companyId
          in case deleteFile env fileId companyId s of
               Inl e \<Rightarrow>
                 (Send_error 404 (case e of Error m \<Rightarrow> m),
                  console_error ''Error deleting file:'' e s)
             | Inr s1 \<Rightarrow>
                 (case onCompanyDataChange companyId s1 of
                    Inl e \<Rightarrow>
                      (Send_error 404 (case e of Error m \<Rightarrow> m),
                       console_error ''Error deleting file:'' e s1)
                  | Inr s2 \<Rightarrow>
                      (Send_ok 200 True,
                       case company of
                         None \<Rightarrow> s2
                       | Some c \<Rightarrow>
                           auditLog_create (userId c) ''document_deleted''
                             (''Document:'' @ fileId) now s2)))"

section \<open>Mutation paths\<close>

text \<open>
  The requests after which the score may differ: KYC verification, linking and unlinking
  financial accounts, uploading and deleting a document, and a forced recalculation.
  \<open>mutate\<close> runs the handler of a request and returns the store it leaves.
\<close>

datatype mutation =
    Kyc_verify kyc_request
  | Financials_link link_request
  | Financials_unlink string
  | Files_upload string upload_request
  | Files_delete string string
  | Score_recalculate string

fun mutate :: "(string \<Rightarrow> bool) \<Rightarrow> file_env \<Rightarrow> nat \<Rightarrow> mutation \<Rightarrow> store \<Rightarrow> store" where
  "mutate persona env now (Kyc_verify req) s = snd (kyc_verify persona now req s)"
| "mutate persona env now (Financials_link req) s = snd (financials_link now req s)"
| "mutate persona env now (Financials_unlink companyId) s = snd (financials_unlink now companyId s)"
| "mutate persona env now (Files_upload companyId req) s = snd (files_upload env now companyId req s)"
| "mutate persona env now (Files_delete companyId fileId) s =
     snd (files_delete env now companyId fileId s)"
| "mutate persona env now (Score_recalculate companyId) s = snd (score_recalculate companyId s)"

text \<open>The rows that only \<open>notifyScoreImproved\<close> writes carry the title \<open>Score Improved\<close>.\<close>

definition score_improved_rows :: "store \<Rightarrow> notification list" where
  "score_improved_rows s = filter (\<lambda>n. n_title n = Some ''Score Improved'') (notifications s)"

section \<open>Example data\<close>

definition new_company :: company where
  "new_company = \<lparr> userId = ''u1'', name = ''Acme'', sector = ''Technology'',
                    targetRaise = 1000000, revenue = 0, kycVerified = False,
                    financialsLinked = False, updatedAt = 0 \<rparr>"

definition half_company :: company where
  "half_company = new_company\<lparr> revenue := 500000 \<rparr>"

definition full_company :: company where
  "full_company = new_company\<lparr> revenue := 2000000, kycVerified := True, financialsLinked := True \<rparr>"

definition doc :: "string \<Rightarrow> string \<Rightarrow> string \<Rightarrow> document" where
  "doc i companyId category =
     \<lparr> d_id = i, d_companyId = companyId, d_name = ''deck.pdf'', d_mimeType = ''application/pdf'',
       d_size = 1024000, d_path = ''/uploads/'' @ companyId @ ''/'' @ i @ ''.pdf'',
       d_category = category \<rparr>"

definition empty_store :: store where
  "empty_store = \<lparr> companies = Map.empty, documents = [], notifications = [], auditLogs = [],
                    console = [] \<rparr>"

definition new_store :: store where
  "new_store = empty_store\<lparr> companies := [''c1'' \<mapsto> new_company] \<rparr>"

definition half_store :: store where
  "half_store = empty_store\<lparr> companies := [''c1'' \<mapsto> half_company],
                              documents := [doc ''d1'' ''c1'' ''other'', doc ''d2'' ''c2'' ''other'',
                                            doc ''d3'' ''c1'' ''pitch-deck''] \<rparr>"

definition full_store :: store where
  "full_store = empty_store\<lparr> companies := [''c1'' \<mapsto> full_company],
                              documents := [doc ''d1'' ''c1'' ''other'', doc ''d2'' ''c1'' ''other'',
                                            doc ''d3'' ''c1'' ''other'', doc ''d4'' ''c1'' ''other'',
                                            doc ''d5'' ''c1'' ''other''] \<rparr>"

section \<open>Rounding to a double\<close>

text \<open>
  The exponent function brackets its argument between two powers of two, and rounding
  to a double is monotone, odd and keeps the sign.
\<close>

lemma log2_floor_small: "n < 2 \<Longrightarrow> log2_floor n = 0"
  by (simp add: log2_floor.simps)

lemma log2_floor_step: "2 \<le> n \<Longrightarrow> log2_floor n = Suc (log2_floor (n div 2))"
  by (subst log2_floor.simps) simp

lemma log2_floor_bounds:
  "1 \<le> n \<Longrightarrow> 2 ^ log2_floor n \<le> n \<and> n < 2 ^ Suc (log2_floor n)"
proof (induction n rule: log2_floor.induct)
  case (1 n)
  show ?case
  proof (cases "n < 2")
    case True
    with "1.prems" have "n = 1" by simp
    then show ?thesis by (simp add: log2_floor_small)
  next
    case False
    then have h: "1 \<le> n div 2" by simp
    from "1.IH" [OF False h]
    have a: "2 ^ log2_floor (n div 2) \<le> n div 2" and b: "n div 2 < 2 ^ Suc (log2_floor (n div 2))"
      by simp_all
    from False have s: "log2_floor n = Suc (log2_floor (n div 2))"
      by (simp add: log2_floor_step)
    from a have "2 * 2 ^ log2_floor (n div 2) \<le> n" by linarith
    moreover from b have "n < 2 * 2 ^ Suc (log2_floor (n div 2))" by linarith
    ultimately show ?thesis by (simp add: s)
  qed
qed

lemma binade_bounds:
  assumes "x \<noteq> 0"
  shows "2 powi binade x \<le> \<bar>x\<bar>" and "\<bar>x\<bar> < 2 powi (binade x + 1)"
proof -
  let ?a = "\<bar>x\<bar>"
  have pos: "0 < ?a" using assms by simp
  have "2 powi binade x \<le> ?a \<and> ?a < 2 powi (binade x + 1)"
  proof (cases "1 \<le> ?a")
    case True
    let ?n = "nat \<lfloor>?a\<rfloor>"
    have n1: "1 \<le> ?n" using True by linarith
    have b: "binade x = int (log2_floor ?n)"
      using True by (simp add: binade_def Let_def)
    from log2_floor_bounds [OF n1]
    have lo: "2 ^ log2_floor ?n \<le> ?n" and hi: "?n < 2 ^ Suc (log2_floor ?n)" by simp_all
    have "real ?n \<le> ?a" using True by linarith
    moreover have "(2::real) ^ log2_floor ?n \<le> real ?n"
      using lo by (metis of_nat_le_iff of_nat_numeral of_nat_power)
    ultimately have l: "(2::real) ^ log2_floor ?n \<le> ?a" by linarith
    have "?a < real ?n + 1" using True by linarith
    moreover have "real ?n + 1 \<le> (2::real) ^ Suc (log2_floor ?n)"
    proof -
      from hi have "Suc ?n \<le> 2 ^ Suc (log2_floor ?n)" by simp
      then have "real (Suc ?n) \<le> real (2 ^ Suc (log2_floor ?n))" by (simp only: of_nat_le_iff)
      then show ?thesis by simp
    qed
    ultimately have u: "?a < (2::real) ^ Suc (log2_floor ?n)" by linarith
    have e: "int (log2_floor ?n) + 1 = int (Suc (log2_floor ?n))" by simp
    show ?thesis
      unfolding b e power_int_of_nat using l u by simp
  next
    case False
    then have lt: "?a < 1" by simp
    let ?m = "\<lceil>1 / ?a\<rceil> - 1"
    let ?n = "nat ?m"
    let ?k = "log2_floor ?n"
    have g: "1 < 1 / ?a" using pos lt by simp
    then have "1 < \<lceil>1 / ?a\<rceil>" by (simp add: less_ceiling_iff)
    then have m1: "1 \<le> ?m" by simp
    then have n1: "1 \<le> ?n" by linarith
    have b: "binade x = - (int ?k + 1)"
      using False by (simp add: binade_def Let_def)
    from log2_floor_bounds [OF n1]
    have lo: "2 ^ ?k \<le> ?n" and hi: "?n < 2 ^ Suc ?k" by simp_all
    have "0 \<le> ?m" using m1 by linarith
    then have rn: "real ?n = of_int ?m" by (rule of_nat_nat)
    have "(2::real) ^ ?k \<le> real ?n"
      using lo by (metis of_nat_le_iff of_nat_numeral of_nat_power)
    moreover have "of_int ?m < 1 / ?a" by linarith
    ultimately have "(2::real) ^ ?k < 1 / ?a" using rn by linarith
    then have "?a * 2 ^ ?k < 1" using pos by (simp add: field_simps)
    then have u: "?a < 1 / 2 ^ ?k" by (simp add: field_simps)
    have "1 / ?a \<le> of_int ?m + 1" by linarith
    moreover have "real ?n + 1 \<le> (2::real) ^ Suc ?k"
    proof -
      from hi have "Suc ?n \<le> 2 ^ Suc ?k" by simp
      then have "real (Suc ?n) \<le> real (2 ^ Suc ?k)" by (simp only: of_nat_le_iff)
      then show ?thesis by simp
    qed
    ultimately have "1 / ?a \<le> (2::real) ^ Suc ?k" using rn by linarith
    then have "1 \<le> ?a * 2 ^ Suc ?k" using pos by (simp add: field_simps)
    then have l: "1 / 2 ^ Suc ?k \<le> ?a" by (simp add: field_simps)
    have e1: "(2::real) powi (- (int ?k + 1)) = 1 / 2 ^ Suc ?k"
    proof -
      have "- (int ?k + 1) = - int (Suc ?k)" by simp
      then show ?thesis by (simp only: power_int_minus_divide power_int_of_nat)
    qed
    have e2: "(2::real) powi (- (int ?k + 1) + 1) = 1 / 2 ^ ?k"
    proof -
      have "- (int ?k + 1) + 1 = - int ?k" by simp
      then show ?thesis by (simp only: power_int_minus_divide power_int_of_nat)
    qed
    show ?thesis unfolding b e1 e2 using l u by simp
  qed
  then show "2 powi binade x \<le> \<bar>x\<bar>" and "\<bar>x\<bar> < 2 powi (binade x + 1)" by simp_all
qed

lemma powi2_less_imp: "(2::real) powi a < 2 powi b \<Longrightarrow> a < b"
proof (rule ccontr)
  assume h: "(2::real) powi a < 2 powi b" and n: "\<not> a < b"
  then have "b \<le> a" by simp
  then have "(2::real) powi b \<le> 2 powi a" by (rule power_int_increasing) simp
  with h show False by simp
qed

lemma binade_mono:
  assumes "0 < x" "x \<le> y"
  shows "binade x \<le> binade y"
proof -
  have "2 powi binade x \<le> \<bar>x\<bar>" using assms by (intro binade_bounds) simp
  moreover have "\<bar>y\<bar> < 2 powi (binade y + 1)" using assms by (intro binade_bounds) simp
  ultimately have "(2::real) powi binade x < 2 powi (binade y + 1)" using assms by simp
  then have "binade x < binade y + 1" by (rule powi2_less_imp)
  then show ?thesis by simp
qed

lemma binade_minus [simp]: "binade (- x) = binade x"
  by (simp add: binade_def)

lemma rne_range: "\<lfloor>m\<rfloor> \<le> rne m \<and> rne m \<le> \<lfloor>m\<rfloor> + 1"
  by (simp add: rne_def Let_def)

lemma rne_of_int [simp]: "rne (of_int k) = k"
  by (simp add: rne_def Let_def)

lemma rne_ge: "of_int k \<le> m \<Longrightarrow> k \<le> rne m"
proof -
  assume "of_int k \<le> m"
  then have "k \<le> \<lfloor>m\<rfloor>" by (simp add: le_floor_iff)
  with rne_range [of m] show ?thesis by linarith
qed

lemma rne_le: "m \<le> of_int k \<Longrightarrow> rne m \<le> k"
proof (cases "m = of_int k")
  case True
  then show ?thesis by simp
next
  case False
  assume "m \<le> of_int k"
  with False have "m < of_int k" by simp
  then have "\<lfloor>m\<rfloor> < k" by (simp add: floor_less_iff)
  with rne_range [of m] show ?thesis by linarith
qed

lemma rne_mono: "m \<le> m' \<Longrightarrow> rne m \<le> rne m'"
proof (cases "\<lfloor>m\<rfloor> = \<lfloor>m'\<rfloor>")
  case True
  assume "m \<le> m'"
  then have "m - of_int \<lfloor>m'\<rfloor> \<le> m' - of_int \<lfloor>m'\<rfloor>" by simp
  then show ?thesis
    unfolding rne_def Let_def True by (auto split: if_splits)
next
  case False
  assume le: "m \<le> m'"
  then have "\<lfloor>m\<rfloor> \<le> \<lfloor>m'\<rfloor>" by (rule floor_mono)
  with False have "\<lfloor>m\<rfloor> + 1 \<le> \<lfloor>m'\<rfloor>" by simp
  with rne_range [of m] rne_range [of m'] show ?thesis by linarith
qed

lemma rne_minus: "rne (- m) = - rne m"
proof (cases "m = of_int \<lfloor>m\<rfloor>")
  case True
  then obtain k where "m = of_int k" ..
  then have "- m = of_int (- k)" by simp
  then show ?thesis unfolding \<open>m = of_int k\<close> by (simp only: rne_of_int)
next
  case False
  have lt: "of_int \<lfloor>m\<rfloor> < m"
    using False of_int_floor_le [of m] by linarith
  have ub: "m < of_int \<lfloor>m\<rfloor> + 1" by linarith
  have "of_int (- \<lfloor>m\<rfloor> - 1) \<le> - m" by (simp, linarith)
  moreover have "- m < of_int (- \<lfloor>m\<rfloor> - 1) + 1" using lt by simp
  ultimately have f: "\<lfloor>- m\<rfloor> = - \<lfloor>m\<rfloor> - 1" by (rule floor_unique)
  show ?thesis
    unfolding rne_def Let_def f using lt ub by (auto split: if_splits)
qed

lemma ulp_pos [simp]: "0 < ulp x"
  by (simp add: ulp_def)

lemma ulp_minus [simp]: "ulp (- x) = ulp x"
  by (simp add: ulp_def)

lemma round_double_minus: "round_double (- x) = - round_double x"
  by (simp add: round_double_def rne_minus)

lemma round_double_nonneg: "0 \<le> x \<Longrightarrow> 0 \<le> round_double x"
proof -
  assume "0 \<le> x"
  then have "0 \<le> x / ulp x" by (intro divide_nonneg_pos ulp_pos)
  then have "of_int 0 \<le> x / ulp x" by simp
  then have "0 \<le> rne (x / ulp x)" by (rule rne_ge)
  then have "0 \<le> of_int (rne (x / ulp x)) * ulp x"
    by (intro mult_nonneg_nonneg) (simp_all add: less_imp_le)
  then show ?thesis by (simp add: round_double_def)
qed

lemma round_double_mono_pos:
  assumes "0 < x" "x \<le> y"
  shows "round_double x \<le> round_double y"
proof -
  let ?qx = "max (binade x - 52) (- 1074)"
  let ?qy = "max (binade y - 52) (- 1074)"
  have y: "0 < y" using assms by simp
  have bm: "binade x \<le> binade y" using assms by (rule binade_mono)
  then have qm: "?qx \<le> ?qy" by simp
  have rx: "round_double x = of_int (rne (x / 2 powi ?qx)) * 2 powi ?qx"
    using assms(1) by (simp add: round_double_def ulp_def)
  have ry: "round_double y = of_int (rne (y / 2 powi ?qy)) * 2 powi ?qy"
    using y by (simp add: round_double_def ulp_def)
  show ?thesis
  proof (cases "?qx = ?qy")
    case True
    have "x / 2 powi ?qy \<le> y / 2 powi ?qy"
      using assms(2) by (simp add: divide_right_mono)
    then have "rne (x / 2 powi ?qy) \<le> rne (y / 2 powi ?qy)" by (rule rne_mono)
    then have "of_int (rne (x / 2 powi ?qy)) * 2 powi ?qy
        \<le> of_int (rne (y / 2 powi ?qy)) * (2::real) powi ?qy"
      by (simp add: mult_right_mono)
    then show ?thesis unfolding rx ry True .
  next
    case False
    with qm have lt: "?qx < ?qy" by linarith
    then have qy: "?qy = binade y - 52" by linarith
    from lt qy have bl: "binade x < binade y" by linarith
    let ?B = "(2::real) powi binade y"
    \<comment> \<open>the upper operand rounds to at least the start of its binade\<close>
    have "?B \<le> \<bar>y\<bar>" using y by (intro binade_bounds) simp
    then have By: "?B \<le> y" using y by simp
    have d52: "?B / 2 powi (binade y - 52) = 2 powi 52"
      by (simp add: power_int_diff)
    have "of_int (2 ^ 52) = ?B / 2 powi (binade y - 52)"
      unfolding d52 by simp
    also have "\<dots> \<le> y / 2 powi (binade y - 52)"
      using By by (simp add: divide_right_mono)
    finally have "2 ^ 52 \<le> rne (y / 2 powi (binade y - 52))" by (rule rne_ge)
    then have A: "of_int (2 ^ 52) * 2 powi (binade y - 52)
        \<le> of_int (rne (y / 2 powi (binade y - 52))) * (2::real) powi (binade y - 52)"
      by (intro mult_right_mono) (simp_all only: of_int_le_iff zero_le_power_int zero_le_numeral)
    have E: "of_int (2 ^ 52) * 2 powi (binade y - 52) = ?B"
      using d52 by (simp add: field_simps)
    have low: "?B \<le> round_double y" using A unfolding ry qy E .
    \<comment> \<open>the lower operand rounds to at most that point\<close>
    have "\<bar>x\<bar> < 2 powi (binade x + 1)" using assms(1) by (intro binade_bounds) simp
    moreover have "(2::real) powi (binade x + 1) \<le> ?B"
      using bl by (intro power_int_increasing) simp_all
    ultimately have xB: "x \<le> ?B" using assms(1) by simp
    have nn: "0 \<le> binade y - ?qx" using lt qy by linarith
    have dq: "?B / 2 powi ?qx = of_int (2 ^ nat (binade y - ?qx))"
    proof -
      have "?B / 2 powi ?qx = 2 powi (binade y - ?qx)" by (simp add: power_int_diff)
      also have "\<dots> = 2 ^ nat (binade y - ?qx)" using nn by (rule power_int_nonneg_exp)
      finally show ?thesis by simp
    qed
    have "x / 2 powi ?qx \<le> ?B / 2 powi ?qx"
      using xB by (simp add: divide_right_mono)
    then have "x / 2 powi ?qx \<le> of_int (2 ^ nat (binade y - ?qx))" unfolding dq .
    then have "rne (x / 2 powi ?qx) \<le> 2 ^ nat (binade y - ?qx)" by (rule rne_le)
    then have A': "of_int (rne (x / 2 powi ?qx)) * 2 powi ?qx
        \<le> of_int (2 ^ nat (binade y - ?qx)) * (2::real) powi ?qx"
      by (intro mult_right_mono) (simp_all only: of_int_le_iff zero_le_power_int zero_le_numeral)
    have E': "of_int (2 ^ nat (binade y - ?qx)) * (2::real) powi ?qx = ?B"
      unfolding dq [symmetric] by simp
    have "round_double x \<le> ?B" using A' unfolding rx E' .
    then show ?thesis using low by (rule order_trans)
  qed
qed

lemma round_double_mono: "x \<le> y \<Longrightarrow> round_double x \<le> round_double y"
proof -
  assume le: "x \<le> y"
  consider "0 < x" | "x \<le> 0" "0 \<le> y" | "y < 0" by linarith
  then show ?thesis
  proof cases
    case 1
    then show ?thesis using le by (rule round_double_mono_pos)
  next
    case 2
    from 2(1) have "0 \<le> round_double (- x)" by (intro round_double_nonneg) simp
    then have "round_double x \<le> 0" by (simp add: round_double_minus)
    moreover from 2(2) have "0 \<le> round_double y" by (rule round_double_nonneg)
    ultimately show ?thesis by simp
  next
    case 3
    then have "0 < - y" "- y \<le> - x" using le by simp_all
    then have "round_double (- y) \<le> round_double (- x)" by (rule round_double_mono_pos)
    then show ?thesis by (simp add: round_double_minus)
  qed
qed

text \<open>
  An integer below \<open>2 ^ 53\<close> in magnitude is a double, so small sums are exact; and
  rounding an integer to a double gives an integer, so the floor in \<open>add_points\<close> loses
  nothing.
\<close>

lemma round_double_of_int:
  assumes "\<bar>k\<bar> < 2 ^ 53"
  shows "round_double (of_int k) = of_int k"
proof (cases "k = 0")
  case True
  then show ?thesis by (simp add: round_double_def)
next
  case False
  let ?x = "real_of_int k"
  let ?q = "max (binade ?x - 52) (- 1074)"
  have nz: "?x \<noteq> 0" using False by simp
  have "2 powi binade ?x \<le> \<bar>?x\<bar>" using nz by (rule binade_bounds)
  moreover have "\<bar>?x\<bar> < 2 powi 53"
  proof -
    have "real_of_int \<bar>k\<bar> < real_of_int (2 ^ 53)" using assms by (simp only: of_int_less_iff)
    then show ?thesis by simp
  qed
  ultimately have "(2::real) powi binade ?x < 2 powi 53" by simp
  then have "binade ?x < 53" by (rule powi2_less_imp)
  then have q0: "?q \<le> 0" by simp
  define n where "n = nat (- ?q)"
  have qn: "?q = - int n" using q0 by (simp add: n_def)
  have u: "ulp ?x = 1 / 2 ^ n"
    unfolding ulp_def qn by (simp only: power_int_minus_divide power_int_of_nat)
  have "?x / ulp ?x = of_int (k * 2 ^ n)" by (simp add: u)
  then have "rne (?x / ulp ?x) = k * 2 ^ n" by (simp only: rne_of_int)
  then have "of_int (rne (?x / ulp ?x)) * ulp ?x = ?x" by (simp add: u)
  with nz show ?thesis by (simp add: round_double_def)
qed

lemma round_double_of_int_integral: "\<exists>j. round_double (of_int k) = of_int j"
proof (cases "\<bar>k\<bar> < 2 ^ 53")
  case True
  then have "round_double (of_int k) = of_int k" by (rule round_double_of_int)
  then show ?thesis ..
next
  case False
  let ?x = "real_of_int k"
  have big: "(2::real) powi 53 \<le> \<bar>?x\<bar>"
  proof -
    from False have "2 ^ 53 \<le> \<bar>k\<bar>" by simp
    then have "real_of_int (2 ^ 53) \<le> real_of_int \<bar>k\<bar>" by (simp only: of_int_le_iff)
    then show ?thesis by simp
  qed
  then have nz: "?x \<noteq> 0" by auto
  have "\<bar>?x\<bar> < 2 powi (binade ?x + 1)" using nz by (rule binade_bounds)
  with big have "(2::real) powi 53 < 2 powi (binade ?x + 1)" by simp
  then have "53 < binade ?x + 1" by (rule powi2_less_imp)
  then have q: "max (binade ?x - 52) (- 1074) = int (nat (binade ?x - 52))" by simp
  have u: "ulp ?x = of_int (2 ^ nat (binade ?x - 52))"
    unfolding ulp_def q by (simp only: power_int_of_nat) simp
  have "round_double ?x = of_int (rne (?x / ulp ?x) * 2 ^ nat (binade ?x - 52))"
    using nz by (simp add: round_double_def u)
  then show ?thesis ..
qed

lemma add_points_exact: "\<bar>a + b\<bar> < 2 ^ 53 \<Longrightarrow> add_points a b = a + b"
proof -
  assume "\<bar>a + b\<bar> < 2 ^ 53"
  then have "round_double (of_int (a + b)) = of_int (a + b)" by (rule round_double_of_int)
  then have "fadd (of_int a) (of_int b) = of_int (a + b)" by (simp add: fadd_def)
  then show ?thesis by (simp only: add_points_def floor_of_int)
qed

lemma add_points_mono: "a \<le> a' \<Longrightarrow> b \<le> b' \<Longrightarrow> add_points a b \<le> add_points a' b'"
proof -
  assume "a \<le> a'" "b \<le> b'"
  then have "real_of_int a + of_int b \<le> of_int a' + of_int b'" by simp
  then have "round_double (of_int a + of_int b) \<le> round_double (of_int a' + of_int b')"
    by (rule round_double_mono)
  then show ?thesis unfolding add_points_def fadd_def by (rule floor_mono)
qed

section \<open>The scoring formula\<close>

text \<open>
  The revenue term at some revenues. At 580,000 the exact product is the tie 14.5, but
  the double nearest to 0.58 lies below it, the product rounds to the double below
  14.5, and the score is 14; at the double just below 100,000 the product rounds up to
  2.5 and the score is 3.
\<close>

lemmas double_eval = fdiv_def fmul_def round_double_def ulp_def binade_def
  log2_floor_small log2_floor_step rne_def Let_def power_int_minus

lemma round_double_1: "round_double 1 = 1"
  by (simp add: double_eval)

lemma round_double_25: "round_double 25 = 25"
  by (simp add: double_eval)

lemma calculateRevenueScore_formula:
  "calculateRevenueScore rv = Math_round (fmul (fdiv (min rv 1000000) 1000000) 25)"
proof (cases "rv \<ge> 1000000")
  case True
  then have "min rv 1000000 = 1000000" by simp
  with True show ?thesis
    by (simp add: calculateRevenueScore_def fdiv_def fmul_def round_double_1 round_double_25
        Math_round_def)
next
  case False
  then have "min rv 1000000 = rv" by simp
  with False show ?thesis by (simp add: calculateRevenueScore_def)
qed

lemma scaled_mono:
  "r \<le> r' \<Longrightarrow> fmul (fdiv r 1000000) 25 \<le> fmul (fdiv r' 1000000) 25"
proof -
  assume "r \<le> r'"
  then have "r / 1000000 \<le> r' / 1000000" by simp
  then have "round_double (r / 1000000) \<le> round_double (r' / 1000000)"
    by (rule round_double_mono)
  then have "round_double (r / 1000000) * 25 \<le> round_double (r' / 1000000) * 25" by simp
  then show ?thesis unfolding fdiv_def fmul_def by (rule round_double_mono)
qed



lemma calculateRevenueScore_mono:
  "r \<le> r' \<Longrightarrow> calculateRevenueScore r \<le> calculateRevenueScore r'"
proof -
  assume le: "r \<le> r'"
  then have "min r 1000000 \<le> min r' 1000000" by simp
  then have "fmul (fdiv (min r 1000000) 1000000) 25 \<le> fmul (fdiv (min r' 1000000) 1000000) 25"
    by (rule scaled_mono)
  then have "fmul (fdiv (min r 1000000) 1000000) 25 + 1 / 2
      \<le> fmul (fdiv (min r' 1000000) 1000000) 25 + 1 / 2" by simp
  then show ?thesis
    unfolding calculateRevenueScore_formula Math_round_def by (rule floor_mono)
qed



lemma calculateRevenueScore_values:
  "calculateRevenueScore 0 = 0"
  "calculateRevenueScore 20000 = 1"
  "calculateRevenueScore 500000 = 13"
  "calculateRevenueScore 580000 = 14"
  "calculateRevenueScore 600000 = 15"
  "calculateRevenueScore 2000000 = 25"
  "calculateRevenueScore (- 1000000) = - 25"
  "calculateRevenueScore (100000 - 1 / 2 ^ 36) = 3"
  "calculateRevenueScore (- 100000000000000000000) = - 2500000000000000"
  "calculateRevenueScore (- 10000000000000000000000) = - 250000000000000000"
  by (simp_all add: calculateRevenueScore_def Math_round_def double_eval)



lemma front_points:
  assumes "0 \<le> k" "k \<le> 30" "0 \<le> f" "f \<le> 20" "0 \<le> d" "d \<le> 25"
  shows "add_points (add_points (add_points 0 k) f) d = k + f + d"
proof -
  have "add_points 0 k = k" using assms by (simp add: add_points_exact)
  moreover have "add_points k f = k + f" using assms by (simp add: add_points_exact)
  moreover have "add_points (k + f) d = k + f + d" using assms by (simp add: add_points_exact)
  ultimately show ?thesis by simp
qed

lemma calculateScore_Some:
  "companies s companyId = Some c \<Longrightarrow>
   calculateScore s companyId =
     Inr \<lparr> score =
             min (add_points
                    ((if kycVerified c then 30 else 0) + (if financialsLinked c then 20 else 0)
                     + min (int (length (company_documents s companyId)) * 5) 25)
                    (calculateRevenueScore (revenue c))) 100,
           breakdown =
             \<lparr> bd_kycVerified = (if kycVerified c then 30 else 0),
               bd_financialsLinked = (if financialsLinked c then 20 else 0),
               bd_documentsUploaded = min (int (length (company_documents s companyId)) * 5) 25,
               bd_revenueScore = calculateRevenueScore (revenue c) \<rparr> \<rparr>"
proof -
  assume c: "companies s companyId = Some c"
  let ?k = "if kycVerified c then 30 else (0::int)"
  let ?f = "if financialsLinked c then 20 else (0::int)"
  let ?d = "min (int (length (company_documents s companyId)) * 5) 25"
  have "add_points (add_points (add_points 0 ?k) ?f) ?d = ?k + ?f + ?d"
    by (rule front_points) simp_all
  then show ?thesis
    by (simp add: calculateScore_def Object_values_def Let_def c)
qed




section \<open>Rounding of the revenue term\<close>



section \<open>A company that does not exist\<close>

text \<open>
  C5. For a company id with no row, \<open>calculateScore\<close> and \<open>getRecommendations\<close> both throw
  \<open>Company not found\<close>; the result is the error alone, with no score or list beside it.
\<close>

theorem not_found:
  assumes "companies s companyId = None"
  shows "calculateScore s companyId = Inl (Error ''Company not found'')
       \<and> getRecommendations s companyId = Inl (Error ''Company not found'')"
  using assms by (simp add: calculateScore_def getRecommendations_def)

theorem not_found_witness:
  "companies empty_store ''c9'' = None
   \<and> calculateScore empty_store ''c9'' = Inl (Error ''Company not found'')
   \<and> getRecommendations empty_store ''c9'' = Inl (Error ''Company not found'')"
proof -
  have h: "companies empty_store ''c9'' = None" by (simp add: empty_store_def)
  from not_found [OF h] h show ?thesis by simp
qed

section \<open>Range of the score\<close>




section \<open>Monotonicity\<close>

text \<open>
  C10. Setting \<open>kycVerified\<close>, setting \<open>financialsLinked\<close>, adding one document of the
  company, or raising the revenue, each with everything else fixed, never lowers the score.
\<close>

theorem score_monotone:
  assumes c: "companies s companyId = Some c"
    and rv: "revenue c \<le> rv"
    and d: "d_companyId d = companyId"
  shows "\<exists>r r1 r2 r3 r4.
      calculateScore s companyId = Inr r
    \<and> calculateScore (s\<lparr> companies := (companies s)(companyId \<mapsto> c\<lparr> kycVerified := True \<rparr>) \<rparr>)
          companyId = Inr r1 \<and> score r \<le> score r1
    \<and> calculateScore (s\<lparr> companies := (companies s)(companyId \<mapsto> c\<lparr> financialsLinked := True \<rparr>) \<rparr>)
          companyId = Inr r2 \<and> score r \<le> score r2
    \<and> calculateScore (s\<lparr> documents := documents s @ [d] \<rparr>) companyId = Inr r3
        \<and> score r \<le> score r3
    \<and> calculateScore (s\<lparr> companies := (companies s)(companyId \<mapsto> c\<lparr> revenue := rv \<rparr>) \<rparr>)
          companyId = Inr r4 \<and> score r \<le> score r4"
proof -
  let ?d = "min (int (length (company_documents s companyId)) * 5) 25"
  let ?d3 = "min (int (Suc (length (company_documents s companyId))) * 5) 25"
  let ?v = "calculateRevenueScore (revenue c)"
  let ?s1 = "s\<lparr> companies := (companies s)(companyId \<mapsto> c\<lparr> kycVerified := True \<rparr>) \<rparr>"
  let ?s2 = "s\<lparr> companies := (companies s)(companyId \<mapsto> c\<lparr> financialsLinked := True \<rparr>) \<rparr>"
  let ?s3 = "s\<lparr> documents := documents s @ [d] \<rparr>"
  let ?s4 = "s\<lparr> companies := (companies s)(companyId \<mapsto> c\<lparr> revenue := rv \<rparr>) \<rparr>"
  have l1: "companies ?s1 companyId = Some (c\<lparr> kycVerified := True \<rparr>)" by simp
  have l2: "companies ?s2 companyId = Some (c\<lparr> financialsLinked := True \<rparr>)" by simp
  have l3: "companies ?s3 companyId = Some c" using c by simp
  have l4: "companies ?s4 companyId = Some (c\<lparr> revenue := rv \<rparr>)" by simp
  have n3: "length (company_documents ?s3 companyId) = Suc (length (company_documents s companyId))"
    using d by (simp add: company_documents_def)
  have n1: "company_documents ?s1 companyId = company_documents s companyId"
    and n2: "company_documents ?s2 companyId = company_documents s companyId"
    and n4: "company_documents ?s4 companyId = company_documents s companyId"
    by (simp_all add: company_documents_def)
  have m: "?v \<le> calculateRevenueScore rv"
    using rv by (rule calculateRevenueScore_mono)
  let ?x = "(if kycVerified c then 30 else 0) + (if financialsLinked c then 20 else 0) + ?d"
  have p1: "add_points ?x ?v \<le> add_points (30 + (if financialsLinked c then 20 else 0) + ?d) ?v"
    by (rule add_points_mono) simp_all
  have p2: "add_points ?x ?v \<le> add_points ((if kycVerified c then 30 else 0) + 20 + ?d) ?v"
    by (rule add_points_mono) simp_all
  have p3: "add_points ?x ?v
      \<le> add_points ((if kycVerified c then 30 else 0) + (if financialsLinked c then 20 else 0) + ?d3) ?v"
    by (rule add_points_mono) (simp_all add: min_def)
  have p4: "add_points ?x ?v \<le> add_points ?x (calculateRevenueScore rv)"
    using m by (intro add_points_mono) simp_all
  show ?thesis
    unfolding calculateScore_Some [OF c] calculateScore_Some [OF l1] calculateScore_Some [OF l2]
      calculateScore_Some [OF l3] calculateScore_Some [OF l4] n1 n2 n3 n4
    using p1 p2 p3 p4 by (simp add: min_le_iff_disj)
qed

theorem score_monotone_witness:
  "companies half_store ''c1'' = Some half_company \<and> revenue half_company \<le> 600000
   \<and> d_companyId (doc ''d9'' ''c1'' ''other'') = ''c1''
   \<and> (\<exists>r r1 r2 r3 r4.
      calculateScore half_store ''c1'' = Inr r \<and> score r = 23
    \<and> calculateScore (half_store\<lparr> companies := (companies half_store)
          (''c1'' \<mapsto> half_company\<lparr> kycVerified := True \<rparr>) \<rparr>) ''c1'' = Inr r1 \<and> score r1 = 53
    \<and> calculateScore (half_store\<lparr> companies := (companies half_store)
          (''c1'' \<mapsto> half_company\<lparr> financialsLinked := True \<rparr>) \<rparr>) ''c1'' = Inr r2 \<and> score r2 = 43
    \<and> calculateScore (half_store\<lparr> documents := documents half_store @ [doc ''d9'' ''c1'' ''other''] \<rparr>)
          ''c1'' = Inr r3 \<and> score r3 = 28
    \<and> calculateScore (half_store\<lparr> companies := (companies half_store)
          (''c1'' \<mapsto> half_company\<lparr> revenue := 600000 \<rparr>) \<rparr>) ''c1'' = Inr r4 \<and> score r4 = 25
    \<and> score r \<le> score r1 \<and> score r \<le> score r2 \<and> score r \<le> score r3 \<and> score r \<le> score r4)"
proof -
  have h1: "companies half_store ''c1'' = Some half_company"
    by (simp add: half_store_def empty_store_def)
  have h2: "revenue half_company \<le> 600000"
    by (simp add: half_company_def new_company_def)
  have h3: "d_companyId (doc ''d9'' ''c1'' ''other'') = ''c1''"
    by (simp add: doc_def)
  note defs = calculateScore_def Object_values_def add_points_exact company_documents_def calculateRevenueScore_values
    half_store_def empty_store_def half_company_def new_company_def doc_def
  from score_monotone [OF h1 h2 h3] obtain r r1 r2 r3 r4 where
    e: "calculateScore half_store ''c1'' = Inr r"
       "calculateScore (half_store\<lparr> companies := (companies half_store)
          (''c1'' \<mapsto> half_company\<lparr> kycVerified := True \<rparr>) \<rparr>) ''c1'' = Inr r1"
       "calculateScore (half_store\<lparr> companies := (companies half_store)
          (''c1'' \<mapsto> half_company\<lparr> financialsLinked := True \<rparr>) \<rparr>) ''c1'' = Inr r2"
       "calculateScore (half_store\<lparr> documents := documents half_store @ [doc ''d9'' ''c1'' ''other''] \<rparr>)
          ''c1'' = Inr r3"
       "calculateScore (half_store\<lparr> companies := (companies half_store)
          (''c1'' \<mapsto> half_company\<lparr> revenue := 600000 \<rparr>) \<rparr>) ''c1'' = Inr r4"
    and le: "score r \<le> score r1" "score r \<le> score r2" "score r \<le> score r3" "score r \<le> score r4"
    by blast
  have "score r = 23" using e(1) by (auto simp: defs)
  moreover have "score r1 = 53" using e(2) by (auto simp: defs)
  moreover have "score r2 = 43" using e(3) by (auto simp: defs)
  moreover have "score r3 = 28" using e(4) by (auto simp: defs)
  moreover have "score r4 = 25" using e(5) by (auto simp: defs)
  ultimately show ?thesis using h1 h2 h3 e le by blast
qed

section \<open>Document categories\<close>

text \<open>
  Changing the category of a document changes neither the company it belongs to nor how
  many documents a company has.
\<close>

lemma count_category_indep:
  "list_all2 (\<lambda>d d'. d' = d\<lparr> d_category := d_category d' \<rparr>) ds ds' \<Longrightarrow>
   length (filter (\<lambda>d. d_companyId d = companyId) ds')
     = length (filter (\<lambda>d. d_companyId d = companyId) ds)"
proof (induction rule: list_all2_induct)
  case Nil
  show ?case by simp
next
  case (Cons d ds d' ds')
  from Cons.hyps(1) have "d_companyId d' = d_companyId d"
    by (cases d, cases d') simp
  with Cons.IH show ?case by simp
qed

text \<open>
  C9. Two stores with the same companies, whose documents differ at most in their
  categories, give the same result of \<open>calculateScore\<close>, score and breakdown alike: the
  documents count through their number only.
\<close>

theorem category_independence:
  assumes "companies s' = companies s"
    and "list_all2 (\<lambda>d d'. d' = d\<lparr> d_category := d_category d' \<rparr>) (documents s) (documents s')"
  shows "calculateScore s' companyId = calculateScore s companyId"
proof -
  have n: "length (company_documents s' companyId) = length (company_documents s companyId)"
    unfolding company_documents_def by (rule count_category_indep [OF assms(2)])
  show ?thesis
    unfolding calculateScore_def assms(1) n by (rule refl)
qed

theorem category_independence_witness:
  "companies (half_store\<lparr> documents := [doc ''d1'' ''c1'' ''legal-documents'',
        doc ''d2'' ''c2'' ''business-plan'', doc ''d3'' ''c1'' ''financial-statements''] \<rparr>)
     = companies half_store
   \<and> list_all2 (\<lambda>d d'. d' = d\<lparr> d_category := d_category d' \<rparr>) (documents half_store)
        (documents (half_store\<lparr> documents := [doc ''d1'' ''c1'' ''legal-documents'',
        doc ''d2'' ''c2'' ''business-plan'', doc ''d3'' ''c1'' ''financial-statements''] \<rparr>))
   \<and> calculateScore (half_store\<lparr> documents := [doc ''d1'' ''c1'' ''legal-documents'',
        doc ''d2'' ''c2'' ''business-plan'', doc ''d3'' ''c1'' ''financial-statements''] \<rparr>) ''c1''
      = calculateScore half_store ''c1''
   \<and> calculateScore half_store ''c1'' =
       Inr \<lparr> score = 23, breakdown = \<lparr> bd_kycVerified = 0, bd_financialsLinked = 0,
                  bd_documentsUploaded = 10, bd_revenueScore = 13 \<rparr> \<rparr>"
proof -
  let ?s' = "half_store\<lparr> documents := [doc ''d1'' ''c1'' ''legal-documents'',
        doc ''d2'' ''c2'' ''business-plan'', doc ''d3'' ''c1'' ''financial-statements''] \<rparr>"
  have h1: "companies ?s' = companies half_store" by simp
  have h2: "list_all2 (\<lambda>d d'. d' = d\<lparr> d_category := d_category d' \<rparr>) (documents half_store)
        (documents ?s')"
    by (simp add: half_store_def empty_store_def doc_def)
  have v: "calculateScore half_store ''c1'' =
       Inr \<lparr> score = 23, breakdown = \<lparr> bd_kycVerified = 0, bd_financialsLinked = 0,
                  bd_documentsUploaded = 10, bd_revenueScore = 13 \<rparr> \<rparr>"
    by (simp add: calculateScore_def Object_values_def add_points_exact company_documents_def calculateRevenueScore_values
    half_store_def empty_store_def half_company_def new_company_def doc_def)
  from category_independence [OF h1 h2, of "''c1''"] h1 h2 v show ?thesis by blast
qed

section \<open>Recommendations\<close>

text \<open>
  The number in the upload message is between 1 and 5, so it prints as one digit, and
  the plural \<open>s\<close> is missing exactly when it is 1.
\<close>

lemma needed_text:
  "n < 5 \<Longrightarrow>
   ''Upload '' @ int_to_string (5 - int n) @ '' more document''
     @ (if 5 - int n > 1 then ''s'' else '''') @ '' to maximize document points''
   = ''Upload '' @ [''12345'' ! (5 - n - 1)] @ '' more document''
     @ (if 5 - n = 1 then '''' else ''s'') @ '' to maximize document points''"
proof -
  assume "n < 5"
  then consider "n = 0" | "n = 1" | "n = 2" | "n = 3" | "n = 4" by linarith
  then show ?thesis
    by cases (simp_all add: int_to_string_def nat_to_string.simps digit_char_def)
qed

lemma getRecommendations_Some:
  assumes "companies s companyId = Some c"
    and "length (company_documents s companyId) = n"
  shows "getRecommendations s companyId = Inr (
      (if \<not> kycVerified c then [''Complete KYC verification to earn 30 points''] else [])
    @ (if \<not> financialsLinked c then [''Link your bank account to earn 20 points''] else [])
    @ (if n < 5
       then [''Upload '' @ [''12345'' ! (5 - n - 1)] @ '' more document''
               @ (if 5 - n = 1 then '''' else ''s'') @ '' to maximize document points'']
       else [])
    @ (if revenue c < 1000000
       then [''As your revenue grows, your score will automatically improve''] else []))"
proof (cases "n < 5")
  case True
  show ?thesis
    using True needed_text [OF True]
    by (simp add: getRecommendations_def assms push_def Let_def)
next
  case False
  show ?thesis
    using False by (simp add: getRecommendations_def assms push_def Let_def)
qed

text \<open>
  C3. For a company that exists, with \<open>n\<close> documents, \<open>getRecommendations\<close> returns the
  messages whose conditions hold, in this order: the KYC message when \<open>kycVerified\<close> is
  false, the bank account message when \<open>financialsLinked\<close> is false, the upload message
  with N = 5 - n (\<open>document\<close> for N = 1, \<open>documents\<close> otherwise) when n < 5, and the
  revenue message when the revenue is below 1,000,000. The messages are the strings of
  the source, which end without a full stop.
\<close>

theorem recommendations_list:
  assumes "companies s companyId = Some c"
    and "n = length (filter (\<lambda>d. d_companyId d = companyId) (documents s))"
  shows "getRecommendations s companyId = Inr (
      (if \<not> kycVerified c then [''Complete KYC verification to earn 30 points''] else [])
    @ (if \<not> financialsLinked c then [''Link your bank account to earn 20 points''] else [])
    @ (if n < 5
       then [''Upload '' @ [''12345'' ! (5 - n - 1)] @ '' more document''
               @ (if 5 - n = 1 then '''' else ''s'') @ '' to maximize document points'']
       else [])
    @ (if revenue c < 1000000
       then [''As your revenue grows, your score will automatically improve''] else []))"
proof -
  have "length (company_documents s companyId) = n"
    using assms(2) by (simp add: company_documents_def)
  with assms(1) show ?thesis by (rule getRecommendations_Some)
qed

theorem recommendations_list_witness:
  "companies half_store ''c1'' = Some half_company
   \<and> (2::nat) = length (filter (\<lambda>d. d_companyId d = ''c1'') (documents half_store))
   \<and> getRecommendations half_store ''c1'' = Inr
        [''Complete KYC verification to earn 30 points'',
         ''Link your bank account to earn 20 points'',
         ''Upload 3 more documents to maximize document points'',
         ''As your revenue grows, your score will automatically improve'']
   \<and> companies (full_store\<lparr> documents := tl (documents full_store) \<rparr>) ''c1'' = Some full_company
   \<and> (4::nat) = length (filter (\<lambda>d. d_companyId d = ''c1'')
                    (documents (full_store\<lparr> documents := tl (documents full_store) \<rparr>)))
   \<and> getRecommendations (full_store\<lparr> documents := tl (documents full_store) \<rparr>) ''c1'' = Inr
        [''Upload 1 more document to maximize document points'']"
proof -
  let ?s = "full_store\<lparr> documents := tl (documents full_store) \<rparr>"
  have h1: "companies half_store ''c1'' = Some half_company"
    by (simp add: half_store_def empty_store_def)
  have h2: "(2::nat) = length (filter (\<lambda>d. d_companyId d = ''c1'') (documents half_store))"
    by (simp add: half_store_def empty_store_def doc_def)
  have g1: "companies ?s ''c1'' = Some full_company"
    by (simp add: full_store_def empty_store_def)
  have g2: "(4::nat) = length (filter (\<lambda>d. d_companyId d = ''c1'') (documents ?s))"
    by (simp add: full_store_def empty_store_def doc_def)
  have a: "getRecommendations half_store ''c1'' = Inr
        [''Complete KYC verification to earn 30 points'',
         ''Link your bank account to earn 20 points'',
         ''Upload 3 more documents to maximize document points'',
         ''As your revenue grows, your score will automatically improve'']"
    using recommendations_list [OF h1 h2] by (simp add: half_company_def new_company_def)
  have b: "getRecommendations ?s ''c1'' = Inr [''Upload 1 more document to maximize document points'']"
    using recommendations_list [OF g1 g2] by (simp add: full_company_def new_company_def)
  from h1 h2 a g1 g2 b show ?thesis by blast
qed


text \<open>
  C7. A brand-new company (not verified, not linked, revenue 0, no documents) gets
  exactly four recommendations; a fully optimised one (verified, linked, at least five
  documents, revenue of at least 1,000,000) gets the empty list.
\<close>

theorem recommendations_extremes:
  "(companies s companyId = Some c \<and> \<not> kycVerified c \<and> \<not> financialsLinked c
      \<and> revenue c = 0 \<and> filter (\<lambda>d. d_companyId d = companyId) (documents s) = []
    \<longrightarrow> (\<exists>rs. getRecommendations s companyId = Inr rs \<and> length rs = 4
          \<and> rs = [''Complete KYC verification to earn 30 points'',
                  ''Link your bank account to earn 20 points'',
                  ''Upload 5 more documents to maximize document points'',
                  ''As your revenue grows, your score will automatically improve'']))
   \<and> (companies s companyId = Some c \<and> kycVerified c \<and> financialsLinked c
      \<and> 1000000 \<le> revenue c \<and> 5 \<le> length (filter (\<lambda>d. d_companyId d = companyId) (documents s))
    \<longrightarrow> getRecommendations s companyId = Inr [])"
proof (intro conjI impI)
  assume a: "companies s companyId = Some c \<and> \<not> kycVerified c \<and> \<not> financialsLinked c
      \<and> revenue c = 0 \<and> filter (\<lambda>d. d_companyId d = companyId) (documents s) = []"
  then have n: "length (company_documents s companyId) = 0"
    by (simp add: company_documents_def)
  from a have c: "companies s companyId = Some c" by simp
  show "\<exists>rs. getRecommendations s companyId = Inr rs \<and> length rs = 4
          \<and> rs = [''Complete KYC verification to earn 30 points'',
                  ''Link your bank account to earn 20 points'',
                  ''Upload 5 more documents to maximize document points'',
                  ''As your revenue grows, your score will automatically improve'']"
    using a by (simp add: getRecommendations_Some [OF c n])
next
  assume a: "companies s companyId = Some c \<and> kycVerified c \<and> financialsLinked c
      \<and> 1000000 \<le> revenue c \<and> 5 \<le> length (filter (\<lambda>d. d_companyId d = companyId) (documents s))"
  then have c: "companies s companyId = Some c" by simp
  have n: "length (company_documents s companyId) = length (company_documents s companyId)" ..
  show "getRecommendations s companyId = Inr []"
    using a by (simp add: getRecommendations_Some [OF c n] company_documents_def)
qed

theorem recommendations_extremes_witness:
  "companies new_store ''c1'' = Some new_company \<and> \<not> kycVerified new_company
   \<and> \<not> financialsLinked new_company \<and> revenue new_company = 0
   \<and> filter (\<lambda>d. d_companyId d = ''c1'') (documents new_store) = []
   \<and> (\<exists>rs. getRecommendations new_store ''c1'' = Inr rs \<and> length rs = 4)
   \<and> companies full_store ''c1'' = Some full_company \<and> kycVerified full_company
   \<and> financialsLinked full_company \<and> 1000000 \<le> revenue full_company
   \<and> 5 \<le> length (filter (\<lambda>d. d_companyId d = ''c1'') (documents full_store))
   \<and> getRecommendations full_store ''c1'' = Inr []"
proof -
  have h: "companies new_store ''c1'' = Some new_company \<and> \<not> kycVerified new_company
      \<and> \<not> financialsLinked new_company \<and> revenue new_company = 0
      \<and> filter (\<lambda>d. d_companyId d = ''c1'') (documents new_store) = []"
    by (simp add: new_store_def empty_store_def new_company_def)
  have g: "companies full_store ''c1'' = Some full_company \<and> kycVerified full_company
      \<and> financialsLinked full_company \<and> 1000000 \<le> revenue full_company
      \<and> 5 \<le> length (filter (\<lambda>d. d_companyId d = ''c1'') (documents full_store))"
    by (simp add: full_store_def empty_store_def full_company_def new_company_def doc_def)
  from recommendations_extremes [of new_store "''c1''" new_company] h
  have a: "\<exists>rs. getRecommendations new_store ''c1'' = Inr rs \<and> length rs = 4" by blast
  from recommendations_extremes [of full_store "''c1''" full_company] g
  have b: "getRecommendations full_store ''c1'' = Inr []" by blast
  from h g a b show ?thesis by blast
qed

section \<open>Verifying or linking twice\<close>

text \<open>
  The first verification of a new company changes the row, writes a notification and an
  audit entry, and recomputes the score.
\<close>

lemma first_verification_effects:
  "kyc_verify (\<lambda>i. True) 7 \<lparr> kr_companyId = ''c1'', kr_inquiryId = None, kr_mockVerify = True \<rparr>
        new_store
   = (Send_ok 200 True,
      new_store\<lparr> companies := [''c1'' \<mapsto> new_company\<lparr> kycVerified := True, updatedAt := 7 \<rparr>],
                 notifications := [\<lparr> n_userId = ''u1'', n_type = success,
                    n_title = Some ''KYC Verified'',
                    n_message = ''Your KYC verification has been completed successfully. You earned 30 investability points!'',
                    n_data = Some [(''event'', JString ''kyc_verified''), (''pointsEarned'', JNumber 30)],
                    n_createdAt = 7 \<rparr>],
                 auditLogs := [\<lparr> a_userId = ''u1'', a_action = ''kyc_verified'',
                    a_resource = ''Company:c1'', a_createdAt = 7 \<rparr>],
                 console := [''Score updated for company c1: 30''] \<rparr>)"
  by (simp add: kyc_verify_def new_store_def empty_store_def new_company_def notifyKycVerified_def
     create_def onCompanyDataChange_def calculateScore_def Object_values_def add_points_exact company_documents_def
     calculateRevenueScore_values auditLog_create_def int_to_string_def
     nat_to_string.simps digit_char_def Let_def)


text \<open>
  C4. Verifying KYC for a company that is already verified, and linking financials for a
  company that is already linked, are answered with status 400 and the messages
  \<open>KYC already verified for this company\<close> and \<open>Financials already linked for this company\<close>
  (the AlreadyDone kind), and the store stays as it was: the company row, no new
  notification, no audit entry and no recomputation of the score.
\<close>

theorem already_done:
  "(companies s (kr_companyId req) = Some c \<and> kycVerified c
      \<longrightarrow> kyc_verify verifyWithPersona now req s
            = (Send_error 400 ''KYC already verified for this company'', s))
   \<and> (companies s (lr_companyId lreq) = Some c' \<and> financialsLinked c'
      \<longrightarrow> financials_link now lreq s
            = (Send_error 400 ''Financials already linked for this company'', s))"
  by (simp add: kyc_verify_def financials_link_def)

theorem already_done_witness:
  "companies full_store ''c1'' = Some full_company \<and> kycVerified full_company
   \<and> financialsLinked full_company
   \<and> kyc_verify (\<lambda>i. True) 7 \<lparr> kr_companyId = ''c1'', kr_inquiryId = None, kr_mockVerify = True \<rparr>
        full_store = (Send_error 400 ''KYC already verified for this company'', full_store)
   \<and> financials_link 7 \<lparr> lr_companyId = ''c1'', lr_plaidToken = ''public-token'', lr_accountId = None \<rparr>
        full_store = (Send_error 400 ''Financials already linked for this company'', full_store)"
proof -
  have h: "companies full_store ''c1'' = Some full_company \<and> kycVerified full_company
      \<and> financialsLinked full_company"
    by (simp add: full_store_def empty_store_def full_company_def new_company_def)
  from already_done [of full_store
      "\<lparr> kr_companyId = ''c1'', kr_inquiryId = None, kr_mockVerify = True \<rparr>" full_company
      "\<lambda>i. True" 7
      "\<lparr> lr_companyId = ''c1'', lr_plaidToken = ''public-token'', lr_accountId = None \<rparr>"
      full_company] h
  show ?thesis by simp
qed

section \<open>The change trigger\<close>

text \<open>
  What \<open>onCompanyDataChange\<close> leaves alone, and the rows titled \<open>Score Improved\<close> across
  every helper that a handler calls.
\<close>

lemma onCompanyDataChange_frame:
  assumes "onCompanyDataChange companyId s = Inr s'"
  shows "companies s' = companies s \<and> documents s' = documents s
       \<and> notifications s' = notifications s \<and> auditLogs s' = auditLogs s"
  using assms by (auto simp: onCompanyDataChange_def split: sum.splits)

lemma rows_onCompanyDataChange:
  "onCompanyDataChange companyId s = Inr s' \<Longrightarrow> score_improved_rows s' = score_improved_rows s"
  by (simp add: score_improved_rows_def onCompanyDataChange_frame)

lemma rows_console_error [simp]:
  "score_improved_rows (console_error p e s) = score_improved_rows s"
  by (cases e) (simp add: score_improved_rows_def console_error_def)

lemma rows_auditLog_create [simp]:
  "score_improved_rows (auditLog_create u a r now s) = score_improved_rows s"
  by (simp add: score_improved_rows_def auditLog_create_def)

lemma rows_update [simp]:
  "score_improved_rows (s\<lparr> companies := m \<rparr>) = score_improved_rows s"
  "score_improved_rows (s\<lparr> documents := ds \<rparr>) = score_improved_rows s"
  "score_improved_rows (s\<lparr> console := l \<rparr>) = score_improved_rows s"
  by (simp_all add: score_improved_rows_def)

lemma rows_notify [simp]:
  "score_improved_rows (notifyKycVerified u now s) = score_improved_rows s"
  "score_improved_rows (notifyFinancialsLinked u now s) = score_improved_rows s"
  "score_improved_rows (notifyDocumentUploaded u dn now s) = score_improved_rows s"
  by (simp_all add: score_improved_rows_def notifyKycVerified_def notifyFinancialsLinked_def
      notifyDocumentUploaded_def create_def)

lemma rows_kyc_verify:
  "score_improved_rows (snd (kyc_verify persona now req s)) = score_improved_rows s"
  by (auto simp: kyc_verify_def Let_def rows_onCompanyDataChange split: option.splits sum.splits)

lemma rows_financials_link:
  "score_improved_rows (snd (financials_link now req s)) = score_improved_rows s"
  by (auto simp: financials_link_def Let_def rows_onCompanyDataChange split: option.splits sum.splits)

lemma rows_financials_unlink:
  "score_improved_rows (snd (financials_unlink now companyId s)) = score_improved_rows s"
  by (auto simp: financials_unlink_def unlinkFromPlaid_def Let_def rows_onCompanyDataChange
      split: option.splits sum.splits)

lemma rows_score_recalculate:
  "score_improved_rows (snd (score_recalculate companyId s)) = score_improved_rows s"
  by (auto simp: score_recalculate_def rows_onCompanyDataChange split: option.splits sum.splits)

lemma rows_uploadFile:
  "uploadFile env file companyId category now s = (r, s') \<Longrightarrow>
   score_improved_rows s' = score_improved_rows s"
  by (auto simp: uploadFile_def Let_def split: option.splits)

lemma rows_files_upload:
  "score_improved_rows (snd (files_upload env now companyId req s)) = score_improved_rows s"
  by (auto simp: files_upload_def Let_def rows_onCompanyDataChange
      dest!: rows_uploadFile split: option.splits sum.splits prod.splits)

lemma rows_deleteFile:
  "deleteFile env fileId companyId s = Inr s' \<Longrightarrow> score_improved_rows s' = score_improved_rows s"
  by (auto simp: deleteFile_def Let_def split: option.splits if_splits)

lemma rows_files_delete:
  "score_improved_rows (snd (files_delete env now companyId fileId s)) = score_improved_rows s"
  by (auto simp: files_delete_def Let_def rows_onCompanyDataChange rows_deleteFile
      split: option.splits sum.splits)

lemma rows_mutate:
  "score_improved_rows (mutate persona env now m s) = score_improved_rows s"
  by (cases m) (simp_all add: rows_kyc_verify rows_financials_link rows_financials_unlink
      rows_files_upload rows_files_delete rows_score_recalculate)

text \<open>
  C8. For a company that exists, \<open>onCompanyDataChange\<close> recomputes the score and returns
  with the company table, the documents, the notifications and the audit log as they
  were; its one effect is a console line with the score. No mutation path adds a
  \<open>Score Improved\<close> notification, the row that \<open>notifyScoreImproved\<close> would add.
\<close>

theorem onCompanyDataChange_persists_nothing:
  "(companies s companyId = Some c \<longrightarrow>
      (\<exists>r s'. calculateScore s companyId = Inr r \<and> onCompanyDataChange companyId s = Inr s'
         \<and> companies s' = companies s \<and> documents s' = documents s
         \<and> notifications s' = notifications s \<and> auditLogs s' = auditLogs s
         \<and> console s' = console s @
              [''Score updated for company '' @ companyId @ '': '' @ int_to_string (score r)]))
   \<and> score_improved_rows (mutate persona env now m s) = score_improved_rows s
   \<and> score_improved_rows (notifyScoreImproved user oldScore newScore now s)
       \<noteq> score_improved_rows s"
proof (intro conjI impI)
  assume c: "companies s companyId = Some c"
  then obtain r where r: "calculateScore s companyId = Inr r"
    by (simp add: calculateScore_Some)
  then show "\<exists>r s'. calculateScore s companyId = Inr r \<and> onCompanyDataChange companyId s = Inr s'
         \<and> companies s' = companies s \<and> documents s' = documents s
         \<and> notifications s' = notifications s \<and> auditLogs s' = auditLogs s
         \<and> console s' = console s @
              [''Score updated for company '' @ companyId @ '': '' @ int_to_string (score r)]"
    by (simp add: onCompanyDataChange_def)
next
  show "score_improved_rows (mutate persona env now m s) = score_improved_rows s"
    by (rule rows_mutate)
next
  show "score_improved_rows (notifyScoreImproved user oldScore newScore now s)
       \<noteq> score_improved_rows s"
    by (simp add: score_improved_rows_def notifyScoreImproved_def create_def Let_def)
qed

theorem onCompanyDataChange_persists_nothing_witness:
  "companies new_store ''c1'' = Some new_company
   \<and> onCompanyDataChange ''c1'' new_store
       = Inr (new_store\<lparr> console := [''Score updated for company c1: 0''] \<rparr>)
   \<and> score_improved_rows (mutate (\<lambda>i. True)
         \<lparr> UPLOAD_DIR = ''/uploads'', validateFile = (\<lambda>f. None), uuid = ''d7'',
           extname = (\<lambda>n. ''.pdf''), processImage = (\<lambda>b. b), fs_access = (\<lambda>p. True),
           fs_unlink = (\<lambda>p. True) \<rparr> 7
         (Kyc_verify \<lparr> kr_companyId = ''c1'', kr_inquiryId = None, kr_mockVerify = True \<rparr>)
         new_store) = []"
proof -
  have h: "companies new_store ''c1'' = Some new_company"
    by (simp add: new_store_def empty_store_def)
  from onCompanyDataChange_persists_nothing [of new_store "''c1''" new_company] h
  obtain r s' where
    r: "calculateScore new_store ''c1'' = Inr r" "onCompanyDataChange ''c1'' new_store = Inr s'"
       "companies s' = companies new_store" "documents s' = documents new_store"
       "notifications s' = notifications new_store" "auditLogs s' = auditLogs new_store"
       "console s' = console new_store @
              [''Score updated for company '' @ ''c1'' @ '': '' @ int_to_string (score r)]"
    by blast
  have "score r = 0"
    using r(1) by (auto simp: calculateScore_def Object_values_def add_points_exact company_documents_def
        calculateRevenueScore_values new_store_def empty_store_def new_company_def)
  with r(7) have "console s' = [''Score updated for company c1: 0'']"
    by (simp add: new_store_def empty_store_def int_to_string_def nat_to_string.simps digit_char_def)
  with r(3-6) have "s' = new_store\<lparr> console := [''Score updated for company c1: 0''] \<rparr>"
    by (cases s') (simp add: new_store_def empty_store_def)
  moreover have "score_improved_rows new_store = []"
    by (simp add: score_improved_rows_def new_store_def empty_store_def)
  with onCompanyDataChange_persists_nothing [of new_store "''c1''" new_company "\<lambda>i. True"
      "\<lparr> UPLOAD_DIR = ''/uploads'', validateFile = (\<lambda>f. None), uuid = ''d7'',
           extname = (\<lambda>n. ''.pdf''), processImage = (\<lambda>b. b), fs_access = (\<lambda>p. True),
           fs_unlink = (\<lambda>p. True) \<rparr>" 7
      "Kyc_verify \<lparr> kr_companyId = ''c1'', kr_inquiryId = None, kr_mockVerify = True \<rparr>"]
  have "score_improved_rows (mutate (\<lambda>i. True)
         \<lparr> UPLOAD_DIR = ''/uploads'', validateFile = (\<lambda>f. None), uuid = ''d7'',
           extname = (\<lambda>n. ''.pdf''), processImage = (\<lambda>b. b), fs_access = (\<lambda>p. True),
           fs_unlink = (\<lambda>p. True) \<rparr> 7
         (Kyc_verify \<lparr> kr_companyId = ''c1'', kr_inquiryId = None, kr_mockVerify = True \<rparr>)
         new_store) = []"
    by simp
  ultimately show ?thesis using h r(2) by simp
qed

end
